theory Spec2Isabelle
  imports Main "HOL-Library.Sublist"
begin

section \<open>Errors, panics and results\<close>

text \<open>
  A Go \<^verbatim>\<open>error\<close> is a value with a message. \<^verbatim>\<open>errors.New(msg)\<close> and
  \<^verbatim>\<open>fmt.Errorf\<close> without \<^verbatim>\<open>%w\<close> give a plain error; \<^verbatim>\<open>fmt.Errorf("prefix: %w", err)\<close>
  wraps \<^verbatim>\<open>err\<close>, its message being the prefix followed by the message of \<^verbatim>\<open>err\<close>.
\<close>

datatype error = errors_New string | fmt_Errorf_w string error

fun Error :: "error \<Rightarrow> string" where
  "Error (errors_New msg) = msg"
| "Error (fmt_Errorf_w pre err) = pre @ Error err"

text \<open>
  A function returning \<^verbatim>\<open>(value, error)\<close> has three outcomes: \<open>Ok v\<close> for
  \<^verbatim>\<open>return v, nil\<close>, \<open>Err e\<close> for a return of the zero value with the error \<^verbatim>\<open>e\<close>,
  and \<open>Panic\<close> for a run-time panic.
\<close>

datatype panic = nil_dereference | index_out_of_range nat nat

datatype 'a result = Ok 'a | Err error | Panic panic

section \<open>The impersonated ID token credentials (package impersonate)\<close>

subsection \<open>Data\<close>

text \<open>
  \<^verbatim>\<open>IDTokenOptions\<close>, lines 35-65. The base credentials, the HTTP client and the logger
  are pointers to values of other packages: their types are the parameters \<open>'c\<close>,
  \<open>'h\<close> and \<open>'l\<close>, and \<open>None\<close> is the nil pointer.
\<close>

record ('c, 'h, 'l) IDTokenOptions =
  Audience :: string
  TargetPrincipal :: string
  IncludeEmail :: bool
  Delegates :: "string list"
  Credentials :: "'c option"
  Client :: "'h option"
  Logger :: "'l option"

text \<open>\<^verbatim>\<open>impersonatedIDTokenProvider\<close>, lines 150-158.\<close>

record ('h, 'l) impersonatedIDTokenProvider =
  client :: 'h
  logger :: 'l
  targetPrincipal :: string
  audience :: string
  includeEmail :: bool
  delegates :: "string list"

text \<open>
  The arguments of the two collaborators called at construction:
  \<^verbatim>\<open>credentials.DetectOptions\<close> (lines 101-105) and \<^verbatim>\<open>httptransport.Options\<close>
  (lines 110-113), with the fields the source sets.
\<close>

record 'l DetectOptions =
  Scopes :: "string list"
  UseSelfSignedJWT :: bool
  detect_Logger :: 'l

record ('c, 'l) httptransport_Options =
  transport_Credentials :: "'c option"
  transport_Logger :: 'l

text \<open>
  The credentials returned by construction are \<^verbatim>\<open>auth.NewCredentials\<close> of the options of
  lines 134-137: a token provider, which is the impersonated provider behind
  \<^verbatim>\<open>auth.NewCachedTokenProvider\<close>, and the universe domain provider, which is the base
  credentials' own when there are base credentials and nil otherwise.
\<close>

datatype ('h, 'l) auth_TokenProvider =
  NewCachedTokenProvider "('h, 'l) impersonatedIDTokenProvider"

record ('c, 'h, 'l) auth_Credentials =
  TokenProvider :: "('h, 'l) auth_TokenProvider"
  UniverseDomainProvider :: "'c option"


text \<open>
  \<^verbatim>\<open>generateIDTokenRequest\<close> and \<^verbatim>\<open>generateIDTokenResponse\<close>, lines 140-148, and the
  \<^verbatim>\<open>auth.Token\<close> built at lines 191-195. A time is a number of nanoseconds since the epoch,
  a duration a number of nanoseconds.
\<close>

record generateIDTokenRequest =
  req_Audience :: string
  req_IncludeEmail :: bool
  req_Delegates :: "string list"

record generateIDTokenResponse =
  resp_Token :: string

record auth_Token =
  Value :: string
  Expiry :: int

text \<open>
  An HTTP request as \<^verbatim>\<open>http.NewRequestWithContext\<close> builds it: the method, the URL it was
  given, the headers (each key with its list of values), the body and the context
  (of type \<open>'x\<close>). The response carries its status code; its body is returned beside it
  by \<^verbatim>\<open>internal.DoRequest\<close>, as bytes.
\<close>

datatype json = JString string | JBool bool | JArray "json list" | JObject "(string \<times> json) list"

record 'x http_Request =
  Method :: string
  URL :: string
  Header :: "string \<rightharpoonup> string list"
  Body :: json
  Ctx :: 'x

record http_Response =
  StatusCode :: int

subsection \<open>The collaborators\<close>

text \<open>
  What the source calls and does not define: the package-level constant
  \<^verbatim>\<open>iamCredentialsEndpoint\<close> and the function \<^verbatim>\<open>formatIAMServiceAccountName\<close> (declared in
  another file of the package), \<^verbatim>\<open>internallog.New\<close>, \<^verbatim>\<open>credentials.DetectDefault\<close>,
  \<^verbatim>\<open>httptransport.NewClient\<close>, the failure of \<^verbatim>\<open>http.NewRequestWithContext\<close> (an error or
  none, from the context, the method and the URL), \<^verbatim>\<open>internal.DoRequest\<close>,
  \<^verbatim>\<open>json.Unmarshal\<close> into a \<^verbatim>\<open>generateIDTokenResponse\<close>, and the clock \<^verbatim>\<open>time.Now\<close>.
  They are the fields of an environment, and every theorem holds for every environment.
\<close>

record ('c, 'h, 'l, 'x) env =
  iamCredentialsEndpoint :: string
  formatIAMServiceAccountName :: "string \<Rightarrow> string"
  internallog_New :: "'l option \<Rightarrow> 'l"
  credentials_DetectDefault :: "'l DetectOptions \<Rightarrow> error + 'c"
  httptransport_NewClient :: "('c, 'l) httptransport_Options \<Rightarrow> error + 'h"
  http_NewRequest_error :: "'x \<Rightarrow> string \<Rightarrow> string \<Rightarrow> error option"
  internal_DoRequest :: "'h \<Rightarrow> 'x http_Request \<Rightarrow> error + (http_Response \<times> string)"
  json_Unmarshal :: "string \<Rightarrow> error + generateIDTokenResponse"
  time_Now :: int

subsection \<open>Construction\<close>

text \<open>\<^verbatim>\<open>IDTokenOptions.validate\<close>, lines 67-78; the receiver may be nil.\<close>

definition validate :: "('c, 'h, 'l) IDTokenOptions option \<Rightarrow> error option" where
  "validate opts =
     (case opts of
        None \<Rightarrow> Some (errors_New ''impersonate: options must be provided'')
      | Some ov \<Rightarrow>
          if Audience ov = '''' then Some (errors_New ''impersonate: audience must be provided'')
          else if TargetPrincipal ov = '''' then
            Some (errors_New ''impersonate: target service account must be provided'')
          else None)"

definition defaultScope :: string where
  "defaultScope = ''https://www.googleapis.com/auth/cloud-platform''"

text \<open>
  The loop of lines 126-128 appends the formatted name of each delegate, in order, to the
  provider's list, which starts empty.
\<close>

definition appendDelegates :: "(string \<Rightarrow> string) \<Rightarrow> string list \<Rightarrow> string list \<Rightarrow> string list" where
  "appendDelegates fmt acc vs = foldl (\<lambda>ds v. ds @ [fmt v]) acc vs"

text \<open>
  \<^verbatim>\<open>NewIDTokenCredentials\<close>, lines 89-138. After validation every access to a field of
  \<^verbatim>\<open>opts\<close> dereferences the pointer: on a nil pointer that is a panic.
\<close>

definition NewIDTokenCredentials ::
  "('c, 'h, 'l, 'x) env \<Rightarrow> ('c, 'h, 'l) IDTokenOptions option \<Rightarrow> ('c, 'h, 'l) auth_Credentials result" where
  "NewIDTokenCredentials env opts =
     (case validate opts of
        Some err \<Rightarrow> Err err
      | None \<Rightarrow>
         (case opts of
            None \<Rightarrow> Panic nil_dereference
          | Some ov \<Rightarrow>
             (let lg = internallog_New env (Logger ov);
                  finish = (\<lambda>cl creds.
                    Ok \<lparr>TokenProvider = NewCachedTokenProvider
                          \<lparr>client = cl, logger = lg,
                           targetPrincipal = TargetPrincipal ov,
                           audience = Audience ov,
                           includeEmail = IncludeEmail ov,
                           delegates = appendDelegates (formatIAMServiceAccountName env) [] (Delegates ov)\<rparr>,
                        UniverseDomainProvider = creds\<rparr>)
              in case Client ov of
                   Some cl \<Rightarrow> finish cl (Credentials ov)
                 | None \<Rightarrow>
                    (case (case Credentials ov of
                             Some c \<Rightarrow> Inr c
                           | None \<Rightarrow>
                               credentials_DetectDefault env
                                 \<lparr>Scopes = [defaultScope], UseSelfSignedJWT = True, detect_Logger = lg\<rparr>) of
                       Inl err \<Rightarrow> Err err
                     | Inr c \<Rightarrow>
                        (case httptransport_NewClient env
                                \<lparr>transport_Credentials = Some c, transport_Logger = lg\<rparr> of
                           Inl err \<Rightarrow> Err err
                         | Inr cl \<Rightarrow> finish cl (Some c))))))"

subsection \<open>Fetching a token\<close>

text \<open>
  \<^verbatim>\<open>json.Marshal\<close> of a \<^verbatim>\<open>generateIDTokenRequest\<close>, by the struct tags of lines 141-143:
  an object with the members \<^verbatim>\<open>audience\<close> and \<^verbatim>\<open>includeEmail\<close>, then \<^verbatim>\<open>delegates\<close>
  unless the slice is empty (\<^verbatim>\<open>omitempty\<close>). The request body is this JSON value, which
  stands for its encoding. Marshalling a struct of a string, a boolean and a slice of
  strings returns no error.
\<close>

definition json_Marshal :: "generateIDTokenRequest \<Rightarrow> error + json" where
  "json_Marshal r =
     Inr (JObject
       ([(''audience'', JString (req_Audience r)),
         (''includeEmail'', JBool (req_IncludeEmail r))] @
        (if req_Delegates r = [] then []
         else [(''delegates'', JArray (map JString (req_Delegates r)))])))"

text \<open>The verb \<^verbatim>\<open>%d\<close> of \<^verbatim>\<open>fmt\<close>: an integer in decimal, with a sign when negative.\<close>

definition digit :: "nat \<Rightarrow> char" where
  "digit n = ''0123456789'' ! n"

fun decimal :: "nat \<Rightarrow> string" where
  "decimal n = (if n < 10 then [digit n] else decimal (n div 10) @ [digit (n mod 10)])"

declare decimal.simps [simp del]

definition fmt_d :: "int \<Rightarrow> string" where
  "fmt_d c = (if c < 0 then CHR ''-'' # decimal (nat (- c)) else decimal (nat c))"

text \<open>The durations of package \<^verbatim>\<open>time\<close>, in nanoseconds, and \<^verbatim>\<open>Time.Add\<close>.\<close>

definition time_Second :: int where
  "time_Second = 1000 * 1000 * 1000"

definition time_Minute :: int where
  "time_Minute = 60 * time_Second"

definition time_Hour :: int where
  "time_Hour = 60 * time_Minute"

definition time_Add :: "int \<Rightarrow> int \<Rightarrow> int" where
  "time_Add t d = t + d"

text \<open>
  \<^verbatim>\<open>http.NewRequestWithContext\<close> returns an error or a request with the given method, URL
  and body and no header. \<^verbatim>\<open>Header.Set\<close> replaces the values of a key by one value
  (the key \<^verbatim>\<open>Content-Type\<close> is already in canonical form).
\<close>

definition http_NewRequestWithContext ::
  "('c, 'h, 'l, 'x) env \<Rightarrow> 'x \<Rightarrow> string \<Rightarrow> string \<Rightarrow> json \<Rightarrow> error + 'x http_Request" where
  "http_NewRequestWithContext env ctx method url body =
     (case http_NewRequest_error env ctx method url of
        Some err \<Rightarrow> Inl err
      | None \<Rightarrow> Inr \<lparr>Method = method, URL = url, Header = Map.empty, Body = body, Ctx = ctx\<rparr>)"

definition Header_Set :: "'x http_Request \<Rightarrow> string \<Rightarrow> string \<Rightarrow> 'x http_Request" where
  "Header_Set req k v = req\<lparr>Header := (Header req)(k \<mapsto> [v])\<rparr>"

text \<open>
  \<^verbatim>\<open>impersonatedIDTokenProvider.Token\<close>, lines 160-196, in two parts. \<open>Token_request\<close> is
  lines 161-176: it marshals the body, formats the URL and creates the request that is
  sent. \<open>Token\<close> is the whole method: it hands that request to \<^verbatim>\<open>internal.DoRequest\<close>
  with the provider's client and reads the answer (lines 178-195). The two debug log
  records of lines 177 and 182 return nothing and are left out.
\<close>

definition Token_request ::
  "('c, 'h, 'l, 'x) env \<Rightarrow> ('h, 'l) impersonatedIDTokenProvider \<Rightarrow> 'x \<Rightarrow> 'x http_Request result" where
  "Token_request env i ctx =
     (let genIDTokenReq =
            \<lparr>req_Audience = audience i, req_IncludeEmail = includeEmail i,
             req_Delegates = delegates i\<rparr>
      in case json_Marshal genIDTokenReq of
           Inl err \<Rightarrow> Err (fmt_Errorf_w ''impersonate: unable to marshal request: '' err)
         | Inr bodyBytes \<Rightarrow>
            (let url = iamCredentialsEndpoint env @ ''/v1/'' @
                       formatIAMServiceAccountName env (targetPrincipal i) @ '':generateIdToken''
             in case http_NewRequestWithContext env ctx ''POST'' url bodyBytes of
                  Inl err \<Rightarrow> Err (fmt_Errorf_w ''impersonate: unable to create request: '' err)
                | Inr req \<Rightarrow> Ok (Header_Set req ''Content-Type'' ''application/json'')))"

definition Token ::
  "('c, 'h, 'l, 'x) env \<Rightarrow> ('h, 'l) impersonatedIDTokenProvider \<Rightarrow> 'x \<Rightarrow> auth_Token result" where
  "Token env i ctx =
     (case Token_request env i ctx of
        Err err \<Rightarrow> Err err
      | Panic p \<Rightarrow> Panic p
      | Ok req \<Rightarrow>
         (case internal_DoRequest env (client i) req of
            Inl err \<Rightarrow> Err (fmt_Errorf_w ''impersonate: unable to generate ID token: '' err)
          | Inr (resp, body) \<Rightarrow>
             (let c = StatusCode resp
              in if c < 200 \<or> c > 299 then
                   Err (errors_New (''impersonate: status code '' @ fmt_d c @ '': '' @ body))
                 else
                   (case json_Unmarshal env body of
                      Inl err \<Rightarrow> Err (fmt_Errorf_w ''impersonate: unable to parse response: '' err)
                    | Inr generateIDTokenResp \<Rightarrow>
                        Ok \<lparr>Value = resp_Token generateIDTokenResp,
                            Expiry = time_Add (time_Now env) (1 * time_Hour)\<rparr>))))"

section \<open>The list iterators (package delivery)\<close>

text \<open>
  \<^verbatim>\<open>DeliveryVehicleIterator\<close> and \<^verbatim>\<open>TaskIterator\<close>, lines 25-42 and 72-89 of auxiliary.go.
  The buffer \<^verbatim>\<open>items\<close> is a slice of pointers (\<open>None\<close> is nil); the page info and the raw
  response have the types \<open>'p\<close> and \<open>'r\<close>. The field \<^verbatim>\<open>nextFunc\<close> is a closure over the
  iterator that may refill the buffer: it is the first argument of \<open>Next\<close>, a function
  from the iterator to the error it returns (or none) and the iterator it leaves.
\<close>

record ('a, 'p, 'r) DeliveryVehicleIterator =
  items :: "'a option list"
  pageInfo :: 'p
  Response :: 'r

record ('a, 'p, 'r) TaskIterator =
  items :: "'a option list"
  pageInfo :: 'p
  Response :: 'r

text \<open>
  \<^verbatim>\<open>Next\<close>, lines 51-59 and 98-106. The result is paired with the iterator after the call.
  Indexing \<^verbatim>\<open>it.items[0]\<close> panics when the buffer is empty; \<^verbatim>\<open>it.items[1:]\<close> is the
  buffer without its first element.
\<close>

definition DeliveryVehicleIterator_Next ::
  "(('a, 'p, 'r) DeliveryVehicleIterator \<Rightarrow> error option \<times> ('a, 'p, 'r) DeliveryVehicleIterator) \<Rightarrow>
   ('a, 'p, 'r) DeliveryVehicleIterator \<Rightarrow>
   'a option result \<times> ('a, 'p, 'r) DeliveryVehicleIterator" where
  "DeliveryVehicleIterator_Next nextFunc it =
     (case nextFunc it of
        (Some err, it1) \<Rightarrow> (Err err, it1)
      | (None, it1) \<Rightarrow>
          if length (DeliveryVehicleIterator.items it1) \<le> 0 then
            (Panic (index_out_of_range 0 (length (DeliveryVehicleIterator.items it1))), it1)
          else
            (let item = DeliveryVehicleIterator.items it1 ! 0
             in (Ok item,
                 it1\<lparr>DeliveryVehicleIterator.items := drop 1 (DeliveryVehicleIterator.items it1)\<rparr>)))"

definition TaskIterator_Next ::
  "(('a, 'p, 'r) TaskIterator \<Rightarrow> error option \<times> ('a, 'p, 'r) TaskIterator) \<Rightarrow>
   ('a, 'p, 'r) TaskIterator \<Rightarrow>
   'a option result \<times> ('a, 'p, 'r) TaskIterator" where
  "TaskIterator_Next nextFunc it =
     (case nextFunc it of
        (Some err, it1) \<Rightarrow> (Err err, it1)
      | (None, it1) \<Rightarrow>
          if length (TaskIterator.items it1) \<le> 0 then
            (Panic (index_out_of_range 0 (length (TaskIterator.items it1))), it1)
          else
            (let item = TaskIterator.items it1 ! 0
             in (Ok item, it1\<lparr>TaskIterator.items := drop 1 (TaskIterator.items it1)\<rparr>)))"

section \<open>A name formatter and fixtures for concrete runs\<close>

text \<open>
  Modelled from the spec: \<^verbatim>\<open>formatIAMServiceAccountName\<close> is called at lines 127 and 171 and
  declared in a file that is not under src/. The specification's rule: an identity that
  already matches the fully-qualified resource pattern is used unchanged, any other is
  wrapped as \<^verbatim>\<open>projects/-/serviceAccounts/<identity>\<close>. The pattern is read as
  \<^verbatim>\<open>projects/<project>/serviceAccounts/<account>\<close> with both parts non-empty and free of
  slashes. The theorems below hold for every formatter; this one instantiates the
  environment where a concrete run is needed.
\<close>

fun splitSlash :: "string \<Rightarrow> string list" where
  "splitSlash [] = [[]]"
| "splitSlash (c # cs) =
     (if c = CHR ''/'' then [] # splitSlash cs
      else (case splitSlash cs of [] \<Rightarrow> [[c]] | s # ss \<Rightarrow> (c # s) # ss))"

definition qualifiedName :: "string \<Rightarrow> bool" where
  "qualifiedName name =
     (case splitSlash name of
        [a, p, b, n] \<Rightarrow> a = ''projects'' \<and> p \<noteq> [] \<and> b = ''serviceAccounts'' \<and> n \<noteq> []
      | _ \<Rightarrow> False)"

definition formatName_spec :: "string \<Rightarrow> string" where
  "formatName_spec name =
     (if qualifiedName name then name else ''projects/-/serviceAccounts/'' @ name)"

text \<open>
  A decoder for the fixtures: it accepts the one body of the specification's example and
  rejects every other.
\<close>

definition testUnmarshal :: "string \<Rightarrow> error + generateIDTokenResponse" where
  \<open>testUnmarshal body =
     (if body = ''{"token":"abc123"}'' then Inr \<lparr>resp_Token = ''abc123''\<rparr>
      else Inl (errors_New ''invalid character''))\<close>

text \<open>
  An environment whose credential detection gives \<open>detected\<close>, whose client creation
  succeeds, whose request creation never fails and whose transport answers every request
  with \<open>reply\<close>; and options with a client, the delegate chain of the specification's
  example and no base credentials.
\<close>

definition testEnv ::
  "error + unit \<Rightarrow> error + (http_Response \<times> string) \<Rightarrow> (unit, unit, unit, unit) env" where
  "testEnv detected reply =
     \<lparr>iamCredentialsEndpoint = ''https://iamcredentials.googleapis.com'',
      formatIAMServiceAccountName = formatName_spec,
      internallog_New = (\<lambda>_. ()),
      credentials_DetectDefault = (\<lambda>_. detected),
      httptransport_NewClient = (\<lambda>_. Inr ()),
      http_NewRequest_error = (\<lambda>_ _ _. None),
      internal_DoRequest = (\<lambda>_ _. reply),
      json_Unmarshal = testUnmarshal,
      time_Now = 1700000000 * time_Second\<rparr>"


definition testProvider :: "(unit, unit) impersonatedIDTokenProvider" where
  "testProvider =
     \<lparr>client = (), logger = (),
      targetPrincipal = ''sa@example.iam.gserviceaccount.com'',
      audience = ''https://example.com'',
      includeEmail = True,
      delegates = [''projects/-/serviceAccounts/b@x'', ''projects/-/serviceAccounts/a@y'']\<rparr>"

section \<open>Construction: validation\<close>


text \<open>
  C9. Called with a nil options pointer, \<^verbatim>\<open>NewIDTokenCredentials\<close> returns the error
  "impersonate: options must be provided", whatever the collaborators would do: the nil
  check of \<^verbatim>\<open>validate\<close> comes before every field access, so the call does not panic.
\<close>

theorem NewIDTokenCredentials_nil_options:
  "NewIDTokenCredentials env None = Err (errors_New ''impersonate: options must be provided'')"
  by (simp add: NewIDTokenCredentials_def validate_def)




section \<open>Fetching a token: the request and the answer\<close>

text \<open>
  When \<open>Token_request\<close> returns a request, it is the POST request to the endpoint of the
  formatted target principal, with the one header and the marshalled body.
\<close>

lemma Token_request_Ok:
  "Token_request env i ctx = Ok req \<Longrightarrow>
   req = \<lparr>Method = ''POST'',
          URL = iamCredentialsEndpoint env @ ''/v1/'' @
                formatIAMServiceAccountName env (targetPrincipal i) @ '':generateIdToken'',
          Header = [''Content-Type'' \<mapsto> [''application/json'']],
          Body = JObject
            ([(''audience'', JString (audience i)), (''includeEmail'', JBool (includeEmail i))] @
             (if delegates i = [] then []
              else [(''delegates'', JArray (map JString (delegates i)))])),
          Ctx = ctx\<rparr>"
  by (auto simp add: Token_request_def json_Marshal_def http_NewRequestWithContext_def
        Header_Set_def Let_def split: option.splits)


text \<open>The fixtures: the request of the test provider, and the credentials of the test options.\<close>

lemma testEnv_request:
  "Token_request (testEnv d r) testProvider () =
   Ok \<lparr>Method = ''POST'',
       URL = ''https://iamcredentials.googleapis.com/v1/projects/-/serviceAccounts/sa@example.iam.gserviceaccount.com:generateIdToken'',
       Header = [''Content-Type'' \<mapsto> [''application/json'']],
       Body = JObject
          [(''audience'', JString ''https://example.com''),
           (''includeEmail'', JBool True),
           (''delegates'',
            JArray
             [JString ''projects/-/serviceAccounts/b@x'',
              JString ''projects/-/serviceAccounts/a@y''])],
       Ctx = ()\<rparr>"
  by (simp add: Token_request_def json_Marshal_def http_NewRequestWithContext_def
        Header_Set_def Let_def testEnv_def testProvider_def formatName_spec_def qualifiedName_def)



text \<open>
  C1. When the request is created, \<^verbatim>\<open>internal.DoRequest\<close> returns a response with a status
  code from 200 to 299 and a body, and \<^verbatim>\<open>json.Unmarshal\<close> decodes the body, \<open>Token\<close> returns
  no error and a token whose value is the decoded \<^verbatim>\<open>token\<close> field and whose expiry is the
  clock reading plus one hour, that is 60 * 60 * 1000000000 nanoseconds.
\<close>

theorem Token_success:
  assumes "Token_request env i ctx = Ok req"
    and "internal_DoRequest env (client i) req = Inr (resp, body)"
    and "200 \<le> StatusCode resp" and "StatusCode resp \<le> 299"
    and "json_Unmarshal env body = Inr decoded"
  shows "Token env i ctx =
           Ok \<lparr>Value = resp_Token decoded, Expiry = time_Now env + 60 * 60 * 1000000000\<rparr>"
  using assms by (simp add: Token_def time_Add_def time_Hour_def time_Minute_def time_Second_def)

text \<open>
  The specification's example: status 200 and the body \<^verbatim>\<open>{"token":"abc123"}\<close>, with the
  clock at 1700000000 seconds.
\<close>

theorem Token_success_witness:
  \<open>Token (testEnv (Inr ()) (Inr (\<lparr>StatusCode = 200\<rparr>, ''{"token":"abc123"}''))) testProvider () =
     Ok \<lparr>Value = ''abc123'', Expiry = 1700003600000000000\<rparr>\<close>
proof -
  let ?env = \<open>testEnv (Inr ()) (Inr (\<lparr>StatusCode = 200\<rparr>, ''{"token":"abc123"}''))\<close>
  note r = testEnv_request [of "Inr ()" \<open>Inr (\<lparr>StatusCode = 200\<rparr>, ''{"token":"abc123"}'')\<close>]
  have d: \<open>internal_DoRequest ?env (client testProvider) req =
           Inr (\<lparr>StatusCode = 200\<rparr>, ''{"token":"abc123"}'')\<close> for req
    by (simp add: testEnv_def)
  have u: \<open>json_Unmarshal ?env ''{"token":"abc123"}'' = Inr \<lparr>resp_Token = ''abc123''\<rparr>\<close>
    by (simp add: testEnv_def testUnmarshal_def)
  have n: "time_Now ?env = 1700000000000000000"
    by (simp add: testEnv_def time_Second_def)
  show ?thesis
    using Token_success [OF r d _ _ u] n by simp
qed

text \<open>
  C3. When the exchange completes with a status code below 200 or above 299, \<open>Token\<close>
  returns an error and no token; the message of the error is "impersonate: status code ",
  the status code in decimal, ": " and the raw response body, so it contains both.
\<close>

theorem Token_status_error:
  assumes "Token_request env i ctx = Ok req"
    and "internal_DoRequest env (client i) req = Inr (resp, body)"
    and "StatusCode resp < 200 \<or> 299 < StatusCode resp"
  shows "\<exists>err. Token env i ctx = Err err
           \<and> Error err = ''impersonate: status code '' @ fmt_d (StatusCode resp) @ '': '' @ body
           \<and> sublist (fmt_d (StatusCode resp)) (Error err)
           \<and> sublist body (Error err)"
proof -
  let ?m = "''impersonate: status code '' @ fmt_d (StatusCode resp) @ '': '' @ body"
  have "Token env i ctx = Err (errors_New ?m)"
    using assms by (auto simp add: Token_def)
  moreover have "sublist (fmt_d (StatusCode resp)) ?m"
    unfolding sublist_def by blast
  moreover have "sublist body ?m"
    by (metis append.assoc sublist_appendI append_Nil2)
  ultimately show ?thesis by simp
qed

text \<open>The specification's example: status 403 with the body "permission denied".\<close>

theorem Token_status_error_witness:
  "\<exists>err. Token (testEnv (Inr ()) (Inr (\<lparr>StatusCode = 403\<rparr>, ''permission denied'')))
            testProvider () = Err err
         \<and> Error err = ''impersonate: status code 403: permission denied''
         \<and> sublist ''403'' (Error err)
         \<and> sublist ''permission denied'' (Error err)"
proof -
  let ?env = "testEnv (Inr ()) (Inr (\<lparr>StatusCode = 403\<rparr>, ''permission denied''))"
  note r = testEnv_request [of "Inr ()" "Inr (\<lparr>StatusCode = 403\<rparr>, ''permission denied'')"]
  have d: "internal_DoRequest ?env (client testProvider) req =
           Inr (\<lparr>StatusCode = 403\<rparr>, ''permission denied'')" for req
    by (simp add: testEnv_def)
  have f: "fmt_d 403 = ''403''"
    by (simp add: fmt_d_def decimal.simps digit_def)
  show ?thesis
    using Token_status_error [OF r d] f by simp
qed



text \<open>
  C7. The request that \<open>Token\<close> sends is a POST; its URL is \<^verbatim>\<open>iamCredentialsEndpoint\<close>
  followed by \<^verbatim>\<open>/v1/\<close>, the formatted name of the target principal and
  \<^verbatim>\<open>:generateIdToken\<close>; and its header \<^verbatim>\<open>Content-Type\<close> is \<^verbatim>\<open>application/json\<close>.
\<close>

theorem Token_request_shape:
  assumes "Token_request env i ctx = Ok req"
  shows "Method req = ''POST''
         \<and> URL req = iamCredentialsEndpoint env @ ''/v1/'' @
                     formatIAMServiceAccountName env (targetPrincipal i) @ '':generateIdToken''
         \<and> Header req ''Content-Type'' = Some [''application/json'']"
  using Token_request_Ok [OF assms] by simp

text \<open>The request of the test provider.\<close>

theorem Token_request_shape_witness:
  "\<exists>req. Token_request (testEnv (Inr ()) (Inl (errors_New ''unreachable''))) testProvider () = Ok req
         \<and> Method req = ''POST''
         \<and> URL req = ''https://iamcredentials.googleapis.com/v1/projects/-/serviceAccounts/sa@example.iam.gserviceaccount.com:generateIdToken''
         \<and> Header req ''Content-Type'' = Some [''application/json'']"
proof -
  note r = testEnv_request [of "Inr ()" "Inl (errors_New ''unreachable'')"]
  show ?thesis
    using Token_request_shape [OF r] r
    by (simp add: testEnv_def testProvider_def formatName_spec_def qualifiedName_def)
qed






section \<open>The iterators: Next\<close>

text \<open>
  C10. For both iterators: when \<^verbatim>\<open>nextFunc\<close> returns nil and leaves a non-empty buffer,
  \<open>Next\<close> returns the first element of that buffer with no error and leaves the rest of the
  buffer, in order; when \<^verbatim>\<open>nextFunc\<close> returns nil and leaves an empty buffer, \<open>Next\<close> panics
  with index 0 out of range for length 0.
\<close>

theorem Next_head_or_panic:
  "(nextFuncV itV = (None, nextV) \<and> DeliveryVehicleIterator.items nextV \<noteq> [] \<longrightarrow>
      (\<exists>x xs. DeliveryVehicleIterator.items nextV = x # xs
         \<and> DeliveryVehicleIterator_Next nextFuncV itV =
             (Ok x, nextV\<lparr>DeliveryVehicleIterator.items := xs\<rparr>)))
   \<and> (nextFuncV itV = (None, nextV) \<and> DeliveryVehicleIterator.items nextV = [] \<longrightarrow>
      DeliveryVehicleIterator_Next nextFuncV itV = (Panic (index_out_of_range 0 0), nextV))
   \<and> (nextFuncT itT = (None, nextT) \<and> TaskIterator.items nextT \<noteq> [] \<longrightarrow>
      (\<exists>x xs. TaskIterator.items nextT = x # xs
         \<and> TaskIterator_Next nextFuncT itT = (Ok x, nextT\<lparr>TaskIterator.items := xs\<rparr>)))
   \<and> (nextFuncT itT = (None, nextT) \<and> TaskIterator.items nextT = [] \<longrightarrow>
      TaskIterator_Next nextFuncT itT = (Panic (index_out_of_range 0 0), nextT))"
  by (cases "DeliveryVehicleIterator.items nextV"; cases "TaskIterator.items nextT")
     (simp_all add: DeliveryVehicleIterator_Next_def TaskIterator_Next_def)

text \<open>
  A buffer of three items, an empty buffer that \<^verbatim>\<open>nextFunc\<close> refills with two items,
  and empty buffers that \<^verbatim>\<open>nextFunc\<close> leaves empty.
\<close>

theorem Next_head_or_panic_witness:
  "DeliveryVehicleIterator_Next (\<lambda>it. (None, it))
      \<lparr>DeliveryVehicleIterator.items = [Some (1::nat), None, Some 3],
       pageInfo = (), Response = ()\<rparr> =
     (Ok (Some 1),
      \<lparr>DeliveryVehicleIterator.items = [None, Some 3], pageInfo = (), Response = ()\<rparr>)
   \<and> DeliveryVehicleIterator_Next (\<lambda>it. (None, it))
      \<lparr>DeliveryVehicleIterator.items = ([] :: nat option list), pageInfo = (), Response = ()\<rparr> =
     (Panic (index_out_of_range 0 0),
      \<lparr>DeliveryVehicleIterator.items = [], pageInfo = (), Response = ()\<rparr>)
   \<and> TaskIterator_Next (\<lambda>it. (None, it\<lparr>TaskIterator.items := [Some 7, Some 8]\<rparr>))
      \<lparr>TaskIterator.items = ([] :: nat option list), pageInfo = (), Response = ()\<rparr> =
     (Ok (Some 7), \<lparr>TaskIterator.items = [Some 8], pageInfo = (), Response = ()\<rparr>)
   \<and> TaskIterator_Next (\<lambda>it. (None, it))
      \<lparr>TaskIterator.items = ([] :: nat option list), pageInfo = (), Response = ()\<rparr> =
     (Panic (index_out_of_range 0 0),
      \<lparr>TaskIterator.items = [], pageInfo = (), Response = ()\<rparr>)"
  using
    Next_head_or_panic
      [where nextFuncV = "\<lambda>it. (None, it)"
         and itV = "\<lparr>DeliveryVehicleIterator.items = [Some (1::nat), None, Some 3],
                     pageInfo = (), Response = ()\<rparr>"
         and nextV = "\<lparr>DeliveryVehicleIterator.items = [Some (1::nat), None, Some 3],
                     pageInfo = (), Response = ()\<rparr>"
         and nextFuncT = "\<lambda>it. (None, it\<lparr>TaskIterator.items := [Some 7, Some 8]\<rparr>)"
         and itT = "\<lparr>TaskIterator.items = ([] :: nat option list), pageInfo = (), Response = ()\<rparr>"
         and nextT = "\<lparr>TaskIterator.items = [Some (7::nat), Some 8], pageInfo = (), Response = ()\<rparr>"]
    Next_head_or_panic
      [where nextFuncV = "\<lambda>it. (None, it)"
         and itV = "\<lparr>DeliveryVehicleIterator.items = ([] :: nat option list),
                     pageInfo = (), Response = ()\<rparr>"
         and nextV = "\<lparr>DeliveryVehicleIterator.items = ([] :: nat option list),
                     pageInfo = (), Response = ()\<rparr>"
         and nextFuncT = "\<lambda>it. (None, it)"
         and itT = "\<lparr>TaskIterator.items = ([] :: nat option list), pageInfo = (), Response = ()\<rparr>"
         and nextT = "\<lparr>TaskIterator.items = ([] :: nat option list), pageInfo = (), Response = ()\<rparr>"]
  by simp

end
